theory Spec2Isabelle
  imports Complex_Main
begin

section \<open>Shared data model\<close>

text \<open>
  Every \<^verbatim>\<open>throw\<close> and every rejected promise of the modelled sources is a value of
  one error type. The constructors name the throw site or the collaborator that rejects;
  the message texts of the sources are not part of the model.
\<close>

datatype error =
    NotInitialized
  | EmbeddingProviderError string
  | TableNotFound string
  | TableAlreadyExists string
  | JsonSyntaxError
  | MissingApiKey
  | OllamaUnsupported
  | UnsupportedLLM string
  | QANotSetUp
  | LLMError string
  | OneNoteAPIError string
  | ConversionError string
  | SchemaError

type_synonym vector = "real list"

type_synonym metadata = "(string \<times> string) list"

text \<open>A LangChain \<^verbatim>\<open>Document\<close>: the text and an optional metadata object.\<close>

record Document =
  pageContent :: string
  metadata :: "metadata option"

text \<open>
  \<^verbatim>\<open>VectorRecord\<close> of the LanceDB store. The vector is optional: \<^verbatim>\<open>vectors[j]\<close> is
  \<^verbatim>\<open>undefined\<close> when the provider returned fewer vectors than texts.
\<close>

record VectorRecord =
  vr_id :: string
  vr_text :: string
  vr_vector :: "vector option"
  vr_metadata :: metadata

text \<open>
  A row as a vector search returns it: the metadata column comes back either as an
  object or as a JSON string, and \<^verbatim>\<open>_distance\<close> may be absent.
\<close>

datatype row_metadata = MetaObject metadata | MetaString string

record result_row =
  row_text :: string
  row_metadata :: row_metadata
  row_distance :: "real option"

record CollectionStats =
  collectionName :: string
  documentCount :: int
  persistDirectory :: string

text \<open>
  JavaScript's \<^verbatim>\<open>a || b\<close> on an optional string and on an optional number. The
  numbers \<open>k\<close> and \<open>batchSize\<close> of the stores are natural numbers throughout.
\<close>

definition or_string :: "string option \<Rightarrow> string \<Rightarrow> string" where
  "or_string a b = (case a of None \<Rightarrow> b | Some s \<Rightarrow> if s = [] then b else s)"

definition or_number :: "nat option \<Rightarrow> nat \<Rightarrow> nat" where
  "or_number a b = (case a of None \<Rightarrow> b | Some n \<Rightarrow> if n = 0 then b else n)"

text \<open>\<^verbatim>\<open>xs[j]\<close>, which is \<^verbatim>\<open>undefined\<close> out of range.\<close>

definition nth_opt :: "'a list \<Rightarrow> nat \<Rightarrow> 'a option" where
  "nth_opt xs j = (if j < length xs then Some (xs ! j) else None)"

text \<open>\<^verbatim>\<open>xs.slice(i, j)\<close> for indices \<open>0 \<le> i \<le> j\<close>.\<close>

definition slice :: "'a list \<Rightarrow> nat \<Rightarrow> nat \<Rightarrow> 'a list" where
  "slice xs i j = take (j - i) (drop i xs)"

section \<open>The LanceDB vector store\<close>

text \<open>
  The collaborators of the store, which the sources reach through \<^verbatim>\<open>this.embeddings\<close>,
  the LanceDB query builder, \<^verbatim>\<open>JSON.parse\<close>, \<^verbatim>\<open>Date.now\<close>/\<^verbatim>\<open>Math.random\<close> and the
  \<^verbatim>\<open>settings\<close> object. The embedding provider is indexed by the number of batch calls
  made before, so that it may answer the same texts differently on a later call.
\<close>

record env =
  embedDocuments :: "nat \<Rightarrow> string list \<Rightarrow> error + vector list"
  embedQuery :: "string \<Rightarrow> error + vector"
  vectorSearch :: "vector \<Rightarrow> VectorRecord list \<Rightarrow> result_row list"
  json_parse :: "string \<Rightarrow> error + metadata"
  generateId :: "nat \<Rightarrow> string"
  retrievalK :: nat
  cfg_persistDirectory :: string
  cfg_collectionName :: string

text \<open>
  A table of the database: its rows and, of its schema, the dimension of the vector
  column, which is fixed when the table is created.
\<close>

record lance_table =
  tbl_dimension :: nat
  tbl_rows :: "VectorRecord list"

text \<open>
  What lies outside the store object: the tables of the LanceDB database in the
  store's directory, the batch calls the embedding provider has received so far, and
  the number of ids generated so far.
\<close>

record world =
  tables :: "string \<rightharpoonup> lance_table"
  embed_calls :: "string list list"
  id_calls :: nat

text \<open>
  The fields of \<^verbatim>\<open>LanceDBStore\<close>. \<open>db\<close> tells whether \<^verbatim>\<open>this.db\<close> holds a connection;
  \<open>table\<close> is the name of the table \<^verbatim>\<open>this.table\<close> is a handle of, or \<open>None\<close> for
  \<^verbatim>\<open>null\<close>; \<open>store_directory\<close> is \<^verbatim>\<open>this.persistDirectory\<close>. The field
  \<^verbatim>\<open>this.embeddings\<close> is the provider of \<open>env\<close>, the constructor's third argument.
\<close>

record LanceDBStore =
  db :: bool
  table :: "string option"
  store_directory :: string
  tableName :: string

definition LanceDBStore_new :: "env \<Rightarrow> string option \<Rightarrow> string option \<Rightarrow> LanceDBStore" where
  "LanceDBStore_new e dir name =
     \<lparr> db = False, table = None,
       store_directory = or_string dir (cfg_persistDirectory e),
       tableName = or_string name (cfg_collectionName e) \<rparr>"

subsection \<open>The LanceDB operations the store calls\<close>

text \<open>
  The database is a directory on the local disk. \<^verbatim>\<open>createTable\<close> rejects when a table
  of that name exists, \<^verbatim>\<open>dropTable\<close> rejects with a table-not-found error when none
  does, and a handle of a table that is gone rejects every operation. Connecting to the
  directory, which the constructor has created, and listing its tables do not fail.

  A write checks the vector column. \<^verbatim>\<open>createTable\<close> infers the dimension from the
  records and rejects them when there is none to infer it from, when a record has no
  vector or an empty one, or when the vectors differ in length; \<^verbatim>\<open>add\<close> rejects
  records whose vector is missing or not of the table's dimension; a vector search
  rejects a query vector that is not of the table's dimension. A write that is
  rejected writes nothing.
\<close>

definition conforms :: "nat \<Rightarrow> VectorRecord \<Rightarrow> bool" where
  "conforms d r = (case vr_vector r of None \<Rightarrow> False | Some v \<Rightarrow> length v = d)"

definition infer_dimension :: "VectorRecord list \<Rightarrow> nat option" where
  "infer_dimension records =
     (case records of
        [] \<Rightarrow> None
      | r # rest \<Rightarrow>
          (case vr_vector r of
             None \<Rightarrow> None
           | Some v \<Rightarrow>
               if v \<noteq> [] \<and> list_all (conforms (length v)) records then Some (length v)
               else None))"

definition createTable :: "world \<Rightarrow> string \<Rightarrow> VectorRecord list \<Rightarrow> error + world" where
  "createTable w name records =
     (case infer_dimension records of
        None \<Rightarrow> Inl SchemaError
      | Some d \<Rightarrow>
          if name \<in> dom (tables w) then Inl (TableAlreadyExists name)
          else Inr (w\<lparr>tables :=
                       (tables w)(name \<mapsto> \<lparr> tbl_dimension = d, tbl_rows = records \<rparr>)\<rparr>))"

definition table_add :: "world \<Rightarrow> string \<Rightarrow> VectorRecord list \<Rightarrow> error + world" where
  "table_add w t records =
     (case tables w t of
        None \<Rightarrow> Inl (TableNotFound t)
      | Some tb \<Rightarrow>
          if list_all (conforms (tbl_dimension tb)) records
          then Inr (w\<lparr>tables := (tables w)(t \<mapsto> tb\<lparr>tbl_rows := tbl_rows tb @ records\<rparr>)\<rparr>)
          else Inl SchemaError)"

definition countRows :: "world \<Rightarrow> string \<Rightarrow> error + nat" where
  "countRows w t =
     (case tables w t of
        None \<Rightarrow> Inl (TableNotFound t)
      | Some tb \<Rightarrow> Inr (length (tbl_rows tb)))"

definition dropTable :: "world \<Rightarrow> string \<Rightarrow> error + world" where
  "dropTable w name =
     (if name \<in> dom (tables w) then Inr (w\<lparr>tables := (tables w)(name := None)\<rparr>)
      else Inl (TableNotFound name))"

subsection \<open>initialize\<close>

definition initialize :: "LanceDBStore \<Rightarrow> world \<Rightarrow> (error + unit) \<times> LanceDBStore" where
  "initialize st w =
     (let st1 = st\<lparr>db := True\<rparr> in
      if tableName st1 \<in> dom (tables w) then
        (case countRows w (tableName st1) of
           Inl e \<Rightarrow> (Inl e, st1\<lparr>table := Some (tableName st1)\<rparr>)
         | Inr count \<Rightarrow> (Inr (), st1\<lparr>table := Some (tableName st1)\<rparr>))
      else (Inr (), st1))"

subsection \<open>addDocuments\<close>

text \<open>The inner loop over \<open>j\<close>: one record per document of the batch, in order.\<close>

definition batch_records :: "env \<Rightarrow> nat \<Rightarrow> Document list \<Rightarrow> vector list \<Rightarrow> VectorRecord list" where
  "batch_records e idc batch vectors =
     map (\<lambda>j. \<lparr> vr_id = generateId e (idc + j),
                vr_text = pageContent (batch ! j),
                vr_vector = nth_opt vectors j,
                vr_metadata = (case metadata (batch ! j) of None \<Rightarrow> [] | Some m \<Rightarrow> m) \<rparr>)
         [0..<length batch]"

text \<open>
  The loop over the batches. With \<open>batchSize = 0\<close> the index never advances and the
  loop does not return, which is the value \<open>None\<close>.
\<close>

partial_function (option) embed_loop ::
  "env \<Rightarrow> Document list \<Rightarrow> nat \<Rightarrow> nat \<Rightarrow> VectorRecord list \<Rightarrow> world
     \<Rightarrow> ((error + VectorRecord list) \<times> world) option" where
  "embed_loop e documents batchSize i records w =
     (if i < length documents then
        (let batch = slice documents i (i + batchSize);
             texts = map pageContent batch;
             w1 = w\<lparr>embed_calls := embed_calls w @ [texts]\<rparr>
         in case embedDocuments e (length (embed_calls w)) texts of
              Inl err \<Rightarrow> Some (Inl err, w1)
            | Inr vectors \<Rightarrow>
                embed_loop e documents batchSize (i + batchSize)
                  (records @ batch_records e (id_calls w1) batch vectors)
                  (w1\<lparr>id_calls := id_calls w1 + length batch\<rparr>))
      else Some (Inr records, w))"

definition addDocuments ::
  "env \<Rightarrow> LanceDBStore \<Rightarrow> world \<Rightarrow> Document list \<Rightarrow> nat
     \<Rightarrow> ((error + unit) \<times> LanceDBStore \<times> world) option" where
  "addDocuments e st w documents batchSize =
     (if documents = [] then Some (Inr (), st, w)
      else
        (case (if \<not> db st then initialize st w else (Inr (), st)) of
           (Inl err, st1) \<Rightarrow> Some (Inl err, st1, w)
         | (Inr u, st1) \<Rightarrow>
            (case embed_loop e documents batchSize 0 [] w of
               None \<Rightarrow> None
             | Some (Inl err, w1) \<Rightarrow> Some (Inl err, st1, w1)
             | Some (Inr records, w1) \<Rightarrow>
                (case table st1 of
                   None \<Rightarrow>
                     (case createTable w1 (tableName st1) records of
                        Inl err \<Rightarrow> Some (Inl err, st1, w1)
                      | Inr w2 \<Rightarrow> Some (Inr (), st1\<lparr>table := Some (tableName st1)\<rparr>, w2))
                 | Some t \<Rightarrow>
                     (case table_add w1 t records of
                        Inl err \<Rightarrow> Some (Inl err, st1, w1)
                      | Inr w2 \<Rightarrow> Some (Inr (), st1, w2))))))"

subsection \<open>search and searchWithScores\<close>

definition row_document :: "env \<Rightarrow> result_row \<Rightarrow> error + Document" where
  "row_document e row =
     (case row_metadata row of
        MetaString s \<Rightarrow>
          (case json_parse e s of
             Inl err \<Rightarrow> Inl err
           | Inr m \<Rightarrow> Inr \<lparr> pageContent = row_text row, metadata = Some m \<rparr>)
      | MetaObject m \<Rightarrow> Inr \<lparr> pageContent = row_text row, metadata = Some m \<rparr>)"

text \<open>\<^verbatim>\<open>results.map(f)\<close> where \<open>f\<close> may throw: the first failure is the result.\<close>

fun map_rows :: "('a \<Rightarrow> error + 'b) \<Rightarrow> 'a list \<Rightarrow> error + 'b list" where
  "map_rows f [] = Inr []"
| "map_rows f (x # xs) =
     (case f x of
        Inl err \<Rightarrow> Inl err
      | Inr y \<Rightarrow> (case map_rows f xs of Inl err \<Rightarrow> Inl err | Inr ys \<Rightarrow> Inr (y # ys)))"

text \<open>
  \<^verbatim>\<open>table.vectorSearch(queryVector).limit(numResults).toArray()\<close>: the first
  \<open>numResults\<close> rows of the ranking of the table's rows.
\<close>

definition vector_query :: "env \<Rightarrow> world \<Rightarrow> string \<Rightarrow> vector \<Rightarrow> nat \<Rightarrow> error + result_row list" where
  "vector_query e w t queryVector numResults =
     (case tables w t of
        None \<Rightarrow> Inl (TableNotFound t)
      | Some tb \<Rightarrow>
          if length queryVector = tbl_dimension tb
          then Inr (take numResults (vectorSearch e queryVector (tbl_rows tb)))
          else Inl SchemaError)"

definition search :: "env \<Rightarrow> LanceDBStore \<Rightarrow> world \<Rightarrow> string \<Rightarrow> nat option \<Rightarrow> error + Document list" where
  "search e st w query k =
     (case table st of
        None \<Rightarrow> Inl NotInitialized
      | Some t \<Rightarrow>
          (let numResults = or_number k (retrievalK e) in
           case embedQuery e query of
             Inl err \<Rightarrow> Inl err
           | Inr queryVector \<Rightarrow>
               (case vector_query e w t queryVector numResults of
                  Inl err \<Rightarrow> Inl err
                | Inr results \<Rightarrow> map_rows (row_document e) results)))"

definition row_scored :: "env \<Rightarrow> result_row \<Rightarrow> error + (Document \<times> real)" where
  "row_scored e row =
     (case row_document e row of
        Inl err \<Rightarrow> Inl err
      | Inr doc \<Rightarrow>
          Inr (doc, (case row_distance row of None \<Rightarrow> 0 | Some d \<Rightarrow> if d = 0 then 0 else d)))"

definition searchWithScores ::
  "env \<Rightarrow> LanceDBStore \<Rightarrow> world \<Rightarrow> string \<Rightarrow> nat option \<Rightarrow> error + (Document \<times> real) list" where
  "searchWithScores e st w query k =
     (case table st of
        None \<Rightarrow> Inl NotInitialized
      | Some t \<Rightarrow>
          (let numResults = or_number k (retrievalK e) in
           case embedQuery e query of
             Inl err \<Rightarrow> Inl err
           | Inr queryVector \<Rightarrow>
               (case vector_query e w t queryVector numResults of
                  Inl err \<Rightarrow> Inl err
                | Inr results \<Rightarrow> map_rows (row_scored e) results)))"

subsection \<open>getCollectionStats, deleteCollection, isReady\<close>

definition getCollectionStats :: "LanceDBStore \<Rightarrow> world \<Rightarrow> error + CollectionStats" where
  "getCollectionStats st w =
     (case (case table st of
              None \<Rightarrow> Inr 0
            | Some t \<Rightarrow> countRows w t) of
        Inl err \<Rightarrow> Inl err
      | Inr count \<Rightarrow>
          Inr \<lparr> collectionName = tableName st, documentCount = int count,
                persistDirectory = store_directory st \<rparr>)"

definition deleteCollection :: "LanceDBStore \<Rightarrow> world \<Rightarrow> (error + unit) \<times> LanceDBStore \<times> world" where
  "deleteCollection st w =
     (if db st then
        (case dropTable w (tableName st) of
           Inl err \<Rightarrow> (Inl err, st, w)
         | Inr w1 \<Rightarrow> (Inr (), st\<lparr>table := None\<rparr>, w1))
      else (Inr (), st, w))"

definition isReady :: "LanceDBStore \<Rightarrow> bool" where
  "isReady st = (table st \<noteq> None)"

section \<open>The HNSWLib vector store\<close>

text \<open>
  The directory of a saved index on disk: whether it holds \<^verbatim>\<open>args.json\<close>, and the
  documents of the index when \<^verbatim>\<open>HNSWLib.load\<close> can read it (\<open>None\<close> when loading
  throws). The in-memory index is modelled by the documents it holds. Of the class,
  the operations that the properties proved below are about are modelled.
\<close>

record hnsw_saved =
  has_args_json :: bool
  saved_index :: "Document list option"

type_synonym hnsw_disk = "string \<rightharpoonup> hnsw_saved"

record HNSWLibStore =
  vectorstore :: "Document list option"
  hnsw_directory :: string
  hnsw_collectionName :: string

text \<open>The retriever \<^verbatim>\<open>HNSWLib.asRetriever({k})\<close> builds: the index and the width.\<close>

record retriever =
  retriever_index :: "Document list"
  retriever_k :: nat

text \<open>\<^verbatim>\<open>path.join\<close> of two segments; its normalisation of the segments is not modelled.\<close>

definition path_join :: "string \<Rightarrow> string \<Rightarrow> string" where
  "path_join a b = a @ ''/'' @ b"

definition getStorePath :: "HNSWLibStore \<Rightarrow> string" where
  "getStorePath st = path_join (hnsw_directory st) (hnsw_collectionName st)"

definition storeExists :: "HNSWLibStore \<Rightarrow> hnsw_disk \<Rightarrow> bool" where
  "storeExists st disk =
     (case disk (getStorePath st) of None \<Rightarrow> False | Some d \<Rightarrow> has_args_json d)"

definition hnsw_initialize :: "HNSWLibStore \<Rightarrow> hnsw_disk \<Rightarrow> HNSWLibStore" where
  "hnsw_initialize st disk =
     (if storeExists st disk then
        (case disk (getStorePath st) of
           None \<Rightarrow> st\<lparr>vectorstore := None\<rparr>
         | Some d \<Rightarrow>
             (case saved_index d of
                None \<Rightarrow> st\<lparr>vectorstore := None\<rparr>
              | Some idx \<Rightarrow> st\<lparr>vectorstore := Some idx\<rparr>))
      else st)"

definition hnsw_search ::
  "env \<Rightarrow> (Document list \<Rightarrow> string \<Rightarrow> nat \<Rightarrow> error + Document list)
     \<Rightarrow> HNSWLibStore \<Rightarrow> string \<Rightarrow> nat option \<Rightarrow> error + Document list" where
  "hnsw_search e similaritySearch st query k =
     (case vectorstore st of
        None \<Rightarrow> Inl NotInitialized
      | Some idx \<Rightarrow> similaritySearch idx query (or_number k (retrievalK e)))"

definition hnsw_asRetriever :: "env \<Rightarrow> HNSWLibStore \<Rightarrow> nat option \<Rightarrow> error + retriever" where
  "hnsw_asRetriever e st k =
     (case vectorstore st of
        None \<Rightarrow> Inl NotInitialized
      | Some idx \<Rightarrow> Inr \<lparr> retriever_index = idx, retriever_k = or_number k (retrievalK e) \<rparr>)"

definition hnsw_getCollectionStats :: "HNSWLibStore \<Rightarrow> CollectionStats" where
  "hnsw_getCollectionStats st =
     \<lparr> collectionName = hnsw_collectionName st,
       documentCount = (if vectorstore st \<noteq> None then - 1 else 0),
       persistDirectory = hnsw_directory st \<rparr>"

definition hnsw_deleteCollection :: "HNSWLibStore \<Rightarrow> hnsw_disk \<Rightarrow> HNSWLibStore \<times> hnsw_disk" where
  "hnsw_deleteCollection st disk =
     (st\<lparr>vectorstore := None\<rparr>,
      if getStorePath st \<in> dom disk then disk(getStorePath st := None) else disk)"

definition hnsw_isReady :: "HNSWLibStore \<Rightarrow> bool" where
  "hnsw_isReady st = (vectorstore st \<noteq> None)"

section \<open>The question answering chain\<close>

record OpenAIConfig =
  apiKey :: string
  apiBase :: string
  modelName :: string
  embeddingModel :: string

record ChatOpenAI =
  openAIApiKey :: string
  llm_modelName :: string
  temperature :: real

record RetrievalQAChain =
  chain_llm :: ChatOpenAI
  chain_retriever :: retriever

text \<open>
  The fields of \<^verbatim>\<open>QAChain\<close>, but for \<^verbatim>\<open>this.vectorstore\<close>: it is a reference to a
  store object that others mutate, so the operations below take the store's current
  state as an argument.
\<close>

record QAChain =
  llm :: ChatOpenAI
  prompt :: string
  chain :: "RetrievalQAChain option"

definition createLLM :: "OpenAIConfig \<Rightarrow> string \<Rightarrow> string option \<Rightarrow> real option \<Rightarrow> error + ChatOpenAI" where
  "createLLM cfg llmType name temp =
     (if llmType = ''openai'' then
        (if apiKey cfg = [] then Inl MissingApiKey
         else Inr \<lparr> openAIApiKey = apiKey cfg,
                    llm_modelName = or_string name (modelName cfg),
                    temperature = (case temp of None \<Rightarrow> 0 | Some t \<Rightarrow> t) \<rparr>)
      else if llmType = ''ollama'' then Inl OllamaUnsupported
      else Inl (UnsupportedLLM llmType))"

text \<open>
  The constructor. \<open>default_template\<close> stands for the module constant
  \<^verbatim>\<open>DEFAULT_QA_TEMPLATE\<close>; an omitted \<open>llmType\<close> is \<^verbatim>\<open>'openai'\<close>.
\<close>

definition QAChain_new ::
  "OpenAIConfig \<Rightarrow> string \<Rightarrow> string option \<Rightarrow> string option \<Rightarrow> real option \<Rightarrow> string option
     \<Rightarrow> error + QAChain" where
  "QAChain_new cfg default_template llmType name temp promptTemplate =
     (case createLLM cfg (case llmType of None \<Rightarrow> ''openai'' | Some t \<Rightarrow> t) name temp of
        Inl err \<Rightarrow> Inl err
      | Inr m \<Rightarrow>
          Inr \<lparr> llm = m, prompt = or_string promptTemplate default_template, chain = None \<rparr>)"

definition qa_initialize :: "env \<Rightarrow> QAChain \<Rightarrow> HNSWLibStore \<Rightarrow> (error + unit) \<times> QAChain" where
  "qa_initialize e qa store =
     (case hnsw_asRetriever e store None of
        Inl err \<Rightarrow> (Inl err, qa)
      | Inr r \<Rightarrow> (Inr (), qa\<lparr>chain := Some \<lparr> chain_llm = llm qa, chain_retriever = r \<rparr>\<rparr>))"

definition ensureInitialized ::
  "env \<Rightarrow> QAChain \<Rightarrow> HNSWLibStore \<Rightarrow> (error + RetrievalQAChain) \<times> QAChain" where
  "ensureInitialized e qa store =
     (case chain qa of
        Some c \<Rightarrow> (Inr c, qa)
      | None \<Rightarrow>
          (case qa_initialize e qa store of
             (Inl err, qa1) \<Rightarrow> (Inl err, qa1)
           | (Inr u, qa1) \<Rightarrow>
               (case chain qa1 of None \<Rightarrow> (Inl NotInitialized, qa1) | Some c \<Rightarrow> (Inr c, qa1))))"

record chain_result =
  result_text :: "string option"
  sourceDocuments :: "Document list option"

record QAResult =
  question :: string
  answer :: string
  sources :: "(string \<times> metadata option) list option"

definition source_preview :: "Document \<Rightarrow> string \<times> metadata option" where
  "source_preview doc =
     (if length (pageContent doc) > 200 then take 200 (pageContent doc) @ ''...''
      else pageContent doc,
      metadata doc)"

text \<open>\<open>invoke\<close> stands for \<^verbatim>\<open>chain.invoke\<close>, the retrieval and the model call.\<close>

definition ask ::
  "env \<Rightarrow> (RetrievalQAChain \<Rightarrow> string \<Rightarrow> error + chain_result) \<Rightarrow> QAChain \<Rightarrow> HNSWLibStore
     \<Rightarrow> string \<Rightarrow> bool \<Rightarrow> (error + QAResult) \<times> QAChain" where
  "ask e invoke qa store q returnSources =
     (case ensureInitialized e qa store of
        (Inl err, qa1) \<Rightarrow> (Inl err, qa1)
      | (Inr c, qa1) \<Rightarrow>
          (case invoke c q of
             Inl err \<Rightarrow> (Inl err, qa1)
           | Inr result \<Rightarrow>
               (Inr \<lparr> question = q,
                      answer = or_string (result_text result) [],
                      sources =
                        (if returnSources then
                           (case sourceDocuments result of
                              None \<Rightarrow> None
                            | Some docs \<Rightarrow> Some (map source_preview docs))
                         else None) \<rparr>,
                qa1)))"

section \<open>The OneNote loader\<close>



















section \<open>Specification-side definitions\<close>

text \<open>
  The partition the specification speaks of: consecutive batches of \<open>B\<close> elements,
  the last one holding what remains.
\<close>

function batches_of :: "nat \<Rightarrow> 'a list \<Rightarrow> 'a list list" where
  "batches_of B xs = (if B = 0 \<or> xs = [] then [] else take B xs # batches_of B (drop B xs))"
  by pat_completeness auto
termination
  by (relation "measure (\<lambda>(B, xs). length xs)") auto

text \<open>The vectors the provider returns for a batch on its \<open>n\<close>-th call, if it returns.\<close>

definition response :: "env \<Rightarrow> nat \<Rightarrow> Document list \<Rightarrow> vector list" where
  "response e n batch =
     (case embedDocuments e n (map pageContent batch) of Inl err \<Rightarrow> [] | Inr vectors \<Rightarrow> vectors)"

text \<open>
  The first rejection of the provider when it is called on the batches in order, from
  call number \<open>n\<close>; \<open>None\<close> when it answers them all.
\<close>

fun first_error :: "env \<Rightarrow> nat \<Rightarrow> Document list list \<Rightarrow> error option" where
  "first_error e n [] = None"
| "first_error e n (b # bs) =
     (case embedDocuments e n (map pageContent b) of
        Inl err \<Rightarrow> Some err
      | Inr vectors \<Rightarrow> first_error e (Suc n) bs)"

text \<open>
  The provider keeps its contract on the batches, called in order from call number
  \<open>n\<close>: it answers each batch with one vector per text, all of dimension \<open>d\<close>.
\<close>

fun responses_ok :: "env \<Rightarrow> nat \<Rightarrow> nat \<Rightarrow> Document list list \<Rightarrow> bool" where
  "responses_ok e d n [] = True"
| "responses_ok e d n (b # bs) =
     (case embedDocuments e n (map pageContent b) of
        Inl err \<Rightarrow> False
      | Inr vectors \<Rightarrow>
          length vectors = length b \<and> list_all (\<lambda>v. length v = d) vectors
          \<and> responses_ok e d (Suc n) bs)"

text \<open>
  The collection takes vectors of dimension \<open>d\<close>: the dimension is positive, and it is
  the dimension of the table when the table exists.
\<close>

definition accepts :: "world \<Rightarrow> string \<Rightarrow> nat \<Rightarrow> bool" where
  "accepts w name d =
     (0 < d \<and> (case tables w name of None \<Rightarrow> True | Some tb \<Rightarrow> tbl_dimension tb = d))"

text \<open>The records of a list of batches, each batch with the vectors returned for it.\<close>

fun batches_records :: "env \<Rightarrow> nat \<Rightarrow> nat \<Rightarrow> Document list list \<Rightarrow> VectorRecord list" where
  "batches_records e n idc [] = []"
| "batches_records e n idc (b # bs) =
     batch_records e idc b (response e n b) @ batches_records e (Suc n) (idc + length b) bs"

text \<open>
  The loop of \<open>addDocuments\<close> as a recursion over the list of its batches; the loop is
  shown to compute exactly this.
\<close>

fun run_batches ::
  "env \<Rightarrow> Document list list \<Rightarrow> VectorRecord list \<Rightarrow> world
     \<Rightarrow> (error + VectorRecord list) \<times> world" where
  "run_batches e [] records w = (Inr records, w)"
| "run_batches e (b # bs) records w =
     (case embedDocuments e (length (embed_calls w)) (map pageContent b) of
        Inl err \<Rightarrow> (Inl err, w\<lparr>embed_calls := embed_calls w @ [map pageContent b]\<rparr>)
      | Inr vectors \<Rightarrow>
          run_batches e bs (records @ batch_records e (id_calls w) b vectors)
            (w\<lparr>embed_calls := embed_calls w @ [map pageContent b],
               id_calls := id_calls w + length b\<rparr>))"

text \<open>
  The store as \<open>addDocuments\<close> goes on with it after its first step, which calls
  \<open>initialize\<close> when there is no connection yet.
\<close>

definition connect :: "LanceDBStore \<Rightarrow> world \<Rightarrow> LanceDBStore" where
  "connect st w = (if db st then st else snd (initialize st w))"

text \<open>The rows a table holds; none when the table does not exist.\<close>

definition rows_of :: "world \<Rightarrow> string \<Rightarrow> VectorRecord list" where
  "rows_of w name = (case tables w name of None \<Rightarrow> [] | Some tb \<Rightarrow> tbl_rows tb)"

text \<open>
  The states a store object passes through: it is constructed over some database, and
  then \<open>initialize\<close>, \<open>addDocuments\<close> and \<open>deleteCollection\<close> are called on it, whatever
  their outcome. The store is the only writer of its database.
\<close>

inductive reachable :: "env \<Rightarrow> LanceDBStore \<Rightarrow> world \<Rightarrow> bool" for e :: env where
  constructed: "reachable e (LanceDBStore_new e dir name) w"
| initialized: "reachable e st w \<Longrightarrow> reachable e (snd (initialize st w)) w"
| added: "reachable e st w \<Longrightarrow> addDocuments e st w documents batchSize = Some (r, st', w')
           \<Longrightarrow> reachable e st' w'"
| deleted: "reachable e st w \<Longrightarrow> deleteCollection st w = (r, st', w') \<Longrightarrow> reachable e st' w'"

text \<open>
  The invariant of these states: a table handle is held only with a connection, it is
  a handle of the store's own table, and with a connection it is held exactly when the
  table exists.
\<close>

definition store_inv :: "LanceDBStore \<Rightarrow> world \<Rightarrow> bool" where
  "store_inv st w =
     ((table st = None \<or> table st = Some (tableName st))
      \<and> (if db st then (table st = None) = (tables w (tableName st) = None)
         else table st = None))"







section \<open>Concrete collaborators and inputs\<close>

definition demo_env :: env where
  "demo_env =
     \<lparr> embedDocuments = (\<lambda>n texts. Inr (map (\<lambda>t. [real (length t)]) texts)),
       embedQuery = (\<lambda>q. Inr [real (length q)]),
       vectorSearch = (\<lambda>q rows. map (\<lambda>r. \<lparr> row_text = vr_text r,
                                             row_metadata = MetaObject (vr_metadata r),
                                             row_distance = Some 1 \<rparr>) rows),
       json_parse = (\<lambda>s. Inl JsonSyntaxError),
       generateId = (\<lambda>n. replicate n (CHR ''i'')),
       retrievalK = 2,
       cfg_persistDirectory = ''./data/chroma_db'',
       cfg_collectionName = ''onenote_collection'' \<rparr>"

text \<open>A provider that answers its first batch call and rejects every later one.\<close>

definition failing_env :: env where
  "failing_env =
     demo_env\<lparr> embedDocuments :=
       (\<lambda>n texts. if n = 0 then Inr (map (\<lambda>t. [real (length t)]) texts)
                   else Inl (EmbeddingProviderError ''rate limit'')) \<rparr>"

definition empty_world :: world where
  "empty_world = \<lparr> tables = Map.empty, embed_calls = [], id_calls = 0 \<rparr>"

definition chunk :: "string \<Rightarrow> Document" where
  "chunk s = \<lparr> pageContent = s, metadata = None \<rparr>"

definition demo_row :: "string \<Rightarrow> VectorRecord" where
  "demo_row s = \<lparr> vr_id = s, vr_text = s, vr_vector = Some [1], vr_metadata = [] \<rparr>"

definition demo_store :: LanceDBStore where
  "demo_store = LanceDBStore_new demo_env None None"

definition open_store :: LanceDBStore where
  "open_store = demo_store\<lparr> db := True, table := Some ''onenote_collection'' \<rparr>"

definition three_rows :: world where
  "three_rows =
     empty_world\<lparr> tables :=
       [''onenote_collection'' \<mapsto>
          \<lparr> tbl_dimension = 1,
            tbl_rows = [demo_row ''a'', demo_row ''b'', demo_row ''c''] \<rparr>] \<rparr>"

definition no_key_config :: OpenAIConfig where
  "no_key_config =
     \<lparr> apiKey = [], apiBase = ''https://api.openai.com/v1'',
       modelName = ''gpt-3.5-turbo'', embeddingModel = ''text-embedding-ada-002'' \<rparr>"




definition two_chunks :: "Document list" where
  "two_chunks = [chunk ''a'', chunk ''b'']"

definition hnsw_fresh :: HNSWLibStore where
  "hnsw_fresh =
     \<lparr> vectorstore = None, hnsw_directory = ''./data/chroma_db'',
       hnsw_collectionName = ''onenote_collection'' \<rparr>"

text \<open>A disk that holds a saved index of two documents for that store.\<close>

definition saved_disk :: hnsw_disk where
  "saved_disk =
     [''./data/chroma_db/onenote_collection''
        \<mapsto> \<lparr> has_args_json = True, saved_index = Some [chunk ''a'', chunk ''b''] \<rparr>]"


text \<open>
  A provider that breaks its contract: vectors of dimension 1 on its first batch call,
  of dimension 2 on every later one.
\<close>

definition mixed_env :: env where
  "mixed_env =
     demo_env\<lparr> embedDocuments :=
       (\<lambda>n texts. if n = 0 then Inr (map (\<lambda>t. [1]) texts) else Inr (map (\<lambda>t. [1, 0]) texts)) \<rparr>"

section \<open>Batches\<close>

lemma div_add_Suc: "0 < B \<Longrightarrow> (m + B) div B = Suc (m div (B::nat))"
  using div_add_self2 [of B m] by simp

lemma ceil_div_step:
  fixes n B :: nat
  assumes "0 < B" "0 < n"
  shows "Suc ((n - B + B - 1) div B) = (n + B - 1) div B"
proof (cases "B \<le> n")
  case True
  from assms obtain m where m: "n = Suc m" by (cases n) auto
  have "(m + B) div B = Suc (m div B)" using assms(1) by (rule div_add_Suc)
  with True m show ?thesis by simp
next
  case False
  then have a: "n - B + B - 1 = B - 1" by simp
  have c: "(n + B - 1) div B = 1"
    using False assms by (intro div_nat_eqI) simp_all
  have d: "(B - 1) div B = 0" using assms by simp
  show ?thesis unfolding a c d by simp
qed

lemma batches_of_Cons:
  "0 < B \<Longrightarrow> xs \<noteq> [] \<Longrightarrow> batches_of B xs = take B xs # batches_of B (drop B xs)"
  by simp

lemma batches_of_Nil: "batches_of B [] = []"
  by simp

lemma batches_of_zero: "batches_of 0 xs = []"
  by simp

declare batches_of.simps [simp del]

lemma concat_batches_of: "0 < B \<Longrightarrow> concat (batches_of B xs) = xs"
proof (induction B xs rule: batches_of.induct)
  case (1 B xs)
  show ?case
  proof (cases "xs = []")
    case True
    then show ?thesis by (simp add: batches_of_Nil)
  next
    case False
    with 1 show ?thesis by (simp add: batches_of_Cons)
  qed
qed

lemma batches_of_bounded: "b \<in> set (batches_of B xs) \<Longrightarrow> length b \<le> B \<and> b \<noteq> []"
proof (induction B xs rule: batches_of.induct)
  case (1 B xs)
  show ?case
  proof (cases "B = 0 \<or> xs = []")
    case True
    with "1.prems" show ?thesis by (auto simp: batches_of_Nil batches_of_zero)
  next
    case False
    then have "batches_of B xs = take B xs # batches_of B (drop B xs)"
      by (simp add: batches_of_Cons)
    with "1.prems" have "b = take B xs \<or> b \<in> set (batches_of B (drop B xs))"
      by simp
    with False "1.IH" show ?thesis by auto
  qed
qed

lemma length_batches_of: "0 < B \<Longrightarrow> length (batches_of B xs) = (length xs + B - 1) div B"
proof (induction B xs rule: batches_of.induct)
  case (1 B xs)
  show ?case
  proof (cases "xs = []")
    case True
    with "1.prems" show ?thesis by (simp add: batches_of_Nil)
  next
    case False
    then have pos: "0 < length xs" by simp
    have "length (batches_of B xs) = Suc (length (batches_of B (drop B xs)))"
      using False "1.prems" by (simp add: batches_of_Cons)
    also have "\<dots> = Suc ((length xs - B + B - 1) div B)"
      using False "1.prems" "1.IH" by simp
    also have "\<dots> = (length xs + B - 1) div B"
      using "1.prems" pos by (rule ceil_div_step)
    finally show ?thesis .
  qed
qed

section \<open>The loop of addDocuments\<close>

lemma embed_loop_step:
  assumes "i < length documents"
  shows "embed_loop e documents B i records w =
     (case embedDocuments e (length (embed_calls w))
             (map pageContent (take B (drop i documents))) of
        Inl err \<Rightarrow>
          Some (Inl err,
                w\<lparr>embed_calls := embed_calls w @ [map pageContent (take B (drop i documents))]\<rparr>)
      | Inr vectors \<Rightarrow>
          embed_loop e documents B (i + B)
            (records @ batch_records e (id_calls w) (take B (drop i documents)) vectors)
            (w\<lparr>embed_calls := embed_calls w @ [map pageContent (take B (drop i documents))],
               id_calls := id_calls w + length (take B (drop i documents))\<rparr>))"
  using assms by (subst embed_loop.simps) (simp add: slice_def Let_def split: sum.splits)

lemma embed_loop_done:
  "\<not> i < length documents \<Longrightarrow> embed_loop e documents B i records w = Some (Inr records, w)"
  by (subst embed_loop.simps) simp

text \<open>With a positive batch size the loop returns, and it runs the batches in order.\<close>

lemma embed_loop_run_batches:
  "0 < B \<Longrightarrow>
     embed_loop e documents B i records w
       = Some (run_batches e (batches_of B (drop i documents)) records w)"
proof (induction "length documents - i" arbitrary: i records w rule: less_induct)
  case less
  show ?case
  proof (cases "i < length documents")
    case False
    then show ?thesis
      by (simp add: embed_loop_done batches_of_Nil)
  next
    case True
    then have ne: "drop i documents \<noteq> []" by simp
    have dr: "drop B (drop i documents) = drop (i + B) documents"
      by (simp add: add.commute)
    have smaller: "length documents - (i + B) < length documents - i"
      using True less.prems by simp
    have bs: "batches_of B (drop i documents)
                = take B (drop i documents) # batches_of B (drop (i + B) documents)"
      using batches_of_Cons [OF less.prems ne] by (simp only: dr)
    show ?thesis
      unfolding embed_loop_step [OF True] bs less.hyps [OF smaller less.prems]
      by (simp split: sum.splits)
  qed
qed

text \<open>Whatever the batch size, a loop that returns has left the tables alone.\<close>

lemma embed_loop_tables:
  assumes "embed_loop e documents B i records w = Some y"
  shows "tables (snd y) = tables w"
  by (rule embed_loop.raw_induct
        [where P = "\<lambda>e documents B i records w y. tables (snd y) = tables w", OF _ assms])
     (fastforce simp: Let_def split: if_splits sum.splits)

lemma run_batches_ok:
  "first_error e (length (embed_calls w)) bs = None \<Longrightarrow>
     run_batches e bs records w =
       (Inr (records @ batches_records e (length (embed_calls w)) (id_calls w) bs),
        w\<lparr>embed_calls := embed_calls w @ map (map pageContent) bs,
           id_calls := id_calls w + length (concat bs)\<rparr>)"
proof (induction bs arbitrary: records w)
  case Nil
  show ?case by simp
next
  case (Cons b bs)
  from Cons.prems obtain vectors where
    v: "embedDocuments e (length (embed_calls w)) (map pageContent b) = Inr vectors"
    and rest: "first_error e (Suc (length (embed_calls w))) bs = None"
    by (auto split: sum.splits)
  let ?w = "w\<lparr>embed_calls := embed_calls w @ [map pageContent b],
               id_calls := id_calls w + length b\<rparr>"
  have "first_error e (length (embed_calls ?w)) bs = None" using rest by simp
  from Cons.IH [OF this] show ?case
    using v by (simp add: response_def add.assoc)
qed

lemma run_batches_error:
  "first_error e (length (embed_calls w)) bs = Some err \<Longrightarrow>
     fst (run_batches e bs records w) = Inl err"
proof (induction bs arbitrary: records w)
  case Nil
  then show ?case by simp
next
  case (Cons b bs)
  show ?case
  proof (cases "embedDocuments e (length (embed_calls w)) (map pageContent b)")
    case (Inl a)
    with Cons.prems show ?thesis by simp
  next
    case (Inr vectors)
    let ?w = "w\<lparr>embed_calls := embed_calls w @ [map pageContent b],
                 id_calls := id_calls w + length b\<rparr>"
    from Cons.prems Inr have "first_error e (length (embed_calls ?w)) bs = Some err" by simp
    from Cons.IH [OF this] show ?thesis using Inr by simp
  qed
qed

section \<open>Records and their positions\<close>

lemma length_batch_records: "length (batch_records e idc b vs) = length b"
  by (simp add: batch_records_def)

lemma batch_records_nth:
  "j < length b \<Longrightarrow>
     batch_records e idc b vs ! j =
       \<lparr> vr_id = generateId e (idc + j), vr_text = pageContent (b ! j),
         vr_vector = nth_opt vs j,
         vr_metadata = (case metadata (b ! j) of None \<Rightarrow> [] | Some m \<Rightarrow> m) \<rparr>"
  by (simp add: batch_records_def)

lemma length_batches_records: "length (batches_records e n idc bs) = length (concat bs)"
  by (induction bs arbitrary: n idc) (simp_all add: length_batch_records)

text \<open>
  Document \<open>i\<close> lies in batch \<open>i div B\<close> at position \<open>i mod B\<close>, and its record
  carries the vector the provider returned at that position for that batch.
\<close>

lemma batches_records_nth:
  "0 < B \<Longrightarrow> i < length xs \<Longrightarrow>
     batches_records e n idc (batches_of B xs) ! i =
       \<lparr> vr_id = generateId e (idc + i), vr_text = pageContent (xs ! i),
         vr_vector = nth_opt (response e (n + i div B) (batches_of B xs ! (i div B))) (i mod B),
         vr_metadata = (case metadata (xs ! i) of None \<Rightarrow> [] | Some m \<Rightarrow> m) \<rparr>"
proof (induction B xs arbitrary: i n idc rule: batches_of.induct)
  case (1 B xs)
  from "1.prems" have ne: "xs \<noteq> []" by auto
  have bs: "batches_of B xs = take B xs # batches_of B (drop B xs)"
    using "1.prems"(1) ne by (rule batches_of_Cons)
  show ?case
  proof (cases "i < B")
    case True
    then have d: "i div B = 0" and m: "i mod B = i" by simp_all
    have lt: "i < length (take B xs)" using True "1.prems" by simp
    show ?thesis
      unfolding bs using lt True
      by (simp add: nth_append length_batch_records batch_records_nth d m)
  next
    case False
    then have ge: "B \<le> i" by simp
    then have d: "i div B = Suc ((i - B) div B)"
      using "1.prems"(1) by (metis div_add_Suc le_add_diff_inverse2)
    have m: "(i - B) mod B = i mod B" using ge by (simp add: le_mod_geq)
    have len: "min (length xs) B = B" using ge "1.prems" by simp
    have lt: "i - B < length (drop B xs)" using ge "1.prems" by simp
    have nz: "\<not> (B = 0 \<or> xs = [])" using "1.prems"(1) ne by simp
    note IH = "1.IH" [OF nz "1.prems"(1) lt, of "Suc n" "idc + B"]
    have idx: "idc + B + (i - B) = idc + i" using ge by simp
    have nth: "drop B xs ! (i - B) = xs ! i" using ge "1.prems" by simp
    show ?thesis
      unfolding bs using ge
      by (simp add: nth_append length_batch_records len IH idx nth d m)
  qed
qed

section \<open>The invariant of the LanceDB store\<close>

lemma initialize_ok: "fst (initialize st w) = Inr ()"
  by (auto simp: initialize_def countRows_def Let_def split: option.splits)

lemma initialize_inv: "store_inv st w \<Longrightarrow> store_inv (snd (initialize st w)) w"
  by (auto simp: store_inv_def initialize_def countRows_def Let_def
           split: option.splits if_splits)

lemma initialize_fields:
  "db (snd (initialize st w))"
  "tableName (snd (initialize st w)) = tableName st"
  "store_directory (snd (initialize st w)) = store_directory st"
  by (auto simp: initialize_def countRows_def Let_def split: option.splits)

lemma connect_inv: "store_inv st w \<Longrightarrow> store_inv (connect st w) w"
  by (simp add: connect_def initialize_inv)

lemma connect_fields:
  "db (connect st w)"
  "tableName (connect st w) = tableName st"
  "store_directory (connect st w) = store_directory st"
  by (simp_all add: connect_def initialize_fields)

lemma connect_table:
  assumes "store_inv st w"
  shows "table (connect st w)
           = (if tables w (tableName st) = None then None else Some (tableName st))"
  using connect_inv [OF assms] connect_fields(1,2) [of st w]
  by (auto simp: store_inv_def)

lemma addDocuments_unfold:
  "documents \<noteq> [] \<Longrightarrow>
   addDocuments e st w documents B =
     (case embed_loop e documents B 0 [] w of
        None \<Rightarrow> None
      | Some (Inl err, w1) \<Rightarrow> Some (Inl err, connect st w, w1)
      | Some (Inr records, w1) \<Rightarrow>
          (case table (connect st w) of
             None \<Rightarrow>
               (case createTable w1 (tableName st) records of
                  Inl err \<Rightarrow> Some (Inl err, connect st w, w1)
                | Inr w2 \<Rightarrow> Some (Inr (), (connect st w)\<lparr>table := Some (tableName st)\<rparr>, w2))
           | Some t \<Rightarrow>
               (case table_add w1 t records of
                  Inl err \<Rightarrow> Some (Inl err, connect st w, w1)
                | Inr w2 \<Rightarrow> Some (Inr (), connect st w, w2))))"
proof (cases "db st")
  case True
  assume "documents \<noteq> []"
  with True show ?thesis
    by (simp add: addDocuments_def connect_def split: option.splits sum.splits prod.splits)
next
  case False
  assume ne: "documents \<noteq> []"
  obtain r st1 where i: "initialize st w = (r, st1)" by (cases "initialize st w")
  with initialize_ok [of st w] have i': "initialize st w = (Inr (), st1)" by simp
  then have c: "connect st w = st1" using False by (simp add: connect_def)
  have tn: "tableName st1 = tableName st"
    using initialize_fields(2) [of st w] i' by simp
  show ?thesis
    using False ne
    by (simp add: addDocuments_def c i' tn split: option.splits sum.splits prod.splits)
qed

lemma addDocuments_inv:
  assumes "store_inv st w" and "addDocuments e st w documents B = Some (r, st', w')"
  shows "store_inv st' w'"
proof (cases "documents = []")
  case True
  with assms show ?thesis by (simp add: addDocuments_def)
next
  case False
  note unf = addDocuments_unfold [OF False, of e st w B]
  from assms(2) unf obtain res w1 where
    loop: "embed_loop e documents B 0 [] w = Some (res, w1)"
    by (auto split: option.splits)
  from embed_loop_tables [OF loop] have tw: "tables w1 = tables w" by simp
  have inv1: "store_inv (connect st w) w1"
    using connect_inv [OF assms(1)] tw by (simp add: store_inv_def)
  have db1: "db (connect st w)" by (rule connect_fields)
  have tn1: "tableName (connect st w) = tableName st" by (rule connect_fields)
  show ?thesis
    using assms(2) inv1 db1 tn1 unfolding unf loop
    by (auto simp: store_inv_def createTable_def table_add_def
             split: sum.splits option.splits if_splits)
qed

lemma deleteCollection_inv:
  "store_inv st w \<Longrightarrow> deleteCollection st w = (r, st', w') \<Longrightarrow> store_inv st' w'"
  by (auto simp: store_inv_def deleteCollection_def dropTable_def split: if_splits sum.splits)

lemma new_inv: "store_inv (LanceDBStore_new e dir name) w"
  by (simp add: store_inv_def LanceDBStore_new_def)

lemma reachable_inv: "reachable e st w \<Longrightarrow> store_inv st w"
proof (induction rule: reachable.induct)
  case (constructed dir name w)
  show ?case by (rule new_inv)
next
  case (initialized st w)
  then show ?case by (simp add: initialize_inv)
next
  case (added st w documents batchSize r st' w')
  then show ?case by (blast intro: addDocuments_inv)
next
  case (deleted st w r st' w')
  then show ?case by (blast intro: deleteCollection_inv)
qed

lemma stats_inv:
  "store_inv st w \<Longrightarrow>
     getCollectionStats st w =
       Inr \<lparr> collectionName = tableName st,
             documentCount =
               (if isReady st then int (length (rows_of w (tableName st))) else 0),
             persistDirectory = store_directory st \<rparr>"
  by (auto simp: store_inv_def getCollectionStats_def countRows_def rows_of_def isReady_def
           split: option.splits if_splits)

lemma demo_store_fields:
  "db demo_store = False" "table demo_store = None"
  "tableName demo_store = ''onenote_collection''"
  "store_directory demo_store = ''./data/chroma_db''"
  by (simp_all add: demo_store_def LanceDBStore_new_def demo_env_def or_string_def)

section \<open>Adding documents in batches\<close>

lemma responses_ok_first_error: "responses_ok e d n bs \<Longrightarrow> first_error e n bs = None"
  by (induction bs arbitrary: n) (auto split: sum.splits)

lemma batch_records_conform:
  "length vs = length b \<Longrightarrow> list_all (\<lambda>v. length v = d) vs \<Longrightarrow>
     list_all (conforms d) (batch_records e idc b vs)"
  by (auto simp: batch_records_def conforms_def nth_opt_def list_all_iff)

lemma batches_records_conform:
  "responses_ok e d n bs \<Longrightarrow> list_all (conforms d) (batches_records e n idc bs)"
proof (induction bs arbitrary: n idc)
  case Nil
  show ?case by simp
next
  case (Cons b bs)
  from Cons.prems obtain vs where
    v: "embedDocuments e n (map pageContent b) = Inr vs"
    and len: "length vs = length b" and dim: "list_all (\<lambda>v. length v = d) vs"
    and rest: "responses_ok e d (Suc n) bs"
    by (auto split: sum.splits)
  have "response e n b = vs" using v by (simp add: response_def)
  with batch_records_conform [OF len dim] Cons.IH [OF rest] show ?case by simp
qed

lemma infer_dimension_conform:
  "records \<noteq> [] \<Longrightarrow> 0 < d \<Longrightarrow> list_all (conforms d) records \<Longrightarrow>
     infer_dimension records = Some d"
  by (cases records) (auto simp: infer_dimension_def conforms_def split: option.splits)

lemma nth_opt_Some: "nth_opt xs j = Some v \<Longrightarrow> j < length xs \<and> v = xs ! j"
  by (auto simp: nth_opt_def split: if_splits)

lemma addDocuments_success:
  assumes ne: "documents \<noteq> []" and B: "0 < B" and inv: "store_inv st w"
    and resp: "responses_ok e d (length (embed_calls w)) (batches_of B documents)"
    and acc: "accepts w (tableName st) d"
  defines "new \<equiv> batches_records e (length (embed_calls w)) (id_calls w) (batches_of B documents)"
  defines "w1 \<equiv> w\<lparr>embed_calls := embed_calls w @ map (map pageContent) (batches_of B documents),
                     id_calls := id_calls w + length documents\<rparr>"
  shows "addDocuments e st w documents B =
           Some (Inr (), (connect st w)\<lparr>table := Some (tableName st)\<rparr>,
                 w1\<lparr>tables := (tables w)(tableName st \<mapsto>
                      \<lparr> tbl_dimension = d, tbl_rows = rows_of w (tableName st) @ new \<rparr>)\<rparr>)"
proof -
  have ok: "first_error e (length (embed_calls w)) (batches_of B documents) = None"
    using resp by (rule responses_ok_first_error)
  have loop: "embed_loop e documents B 0 [] w = Some (Inr new, w1)"
    using embed_loop_run_batches [OF B, of e documents 0 "[]" w] run_batches_ok [OF ok, of "[]"]
    by (simp add: new_def w1_def concat_batches_of [OF B])
  have tw: "tables w1 = tables w" by (simp add: w1_def)
  have conf: "list_all (conforms d) new"
    unfolding new_def using resp by (rule batches_records_conform)
  have "length new = length documents"
    by (simp add: new_def length_batches_records concat_batches_of [OF B])
  with ne have nonempty: "new \<noteq> []" by auto
  have pos: "0 < d" using acc by (simp add: accepts_def)
  show ?thesis
  proof (cases "tables w (tableName st)")
    case None
    then have t: "table (connect st w) = None" using connect_table [OF inv] by simp
    have c: "createTable w1 (tableName st) new
               = Inr (w1\<lparr>tables := (tables w)(tableName st \<mapsto>
                        \<lparr> tbl_dimension = d, tbl_rows = new \<rparr>)\<rparr>)"
      using None tw infer_dimension_conform [OF nonempty pos conf]
      by (simp add: createTable_def domIff)
    show ?thesis
      unfolding addDocuments_unfold [OF ne] loop
      using None by (simp add: t c rows_of_def)
  next
    case (Some tb)
    then have t: "table (connect st w) = Some (tableName st)"
      using connect_table [OF inv] by simp
    have dim: "tbl_dimension tb = d" using acc Some by (simp add: accepts_def)
    have eq: "tb\<lparr>tbl_rows := tbl_rows tb @ new\<rparr>
                = \<lparr> tbl_dimension = d, tbl_rows = tbl_rows tb @ new \<rparr>"
      using dim by (cases tb) simp
    have c: "table_add w1 (tableName st) new
               = Inr (w1\<lparr>tables := (tables w)(tableName st \<mapsto>
                        \<lparr> tbl_dimension = d, tbl_rows = tbl_rows tb @ new \<rparr>)\<rparr>)"
      using Some tw conf dim by (simp add: table_add_def eq)
    have same: "(connect st w)\<lparr>table := Some (tableName st)\<rparr> = connect st w"
      using t by simp
    show ?thesis
      unfolding addDocuments_unfold [OF ne] loop
      using Some by (simp add: t c rows_of_def same)
  qed
qed

lemma batches_two: "batches_of (Suc 0) two_chunks = [[chunk ''a''], [chunk ''b'']]"
  by (simp add: two_chunks_def batches_of_Cons batches_of_Nil)

lemma batches_120:
  "batches_of 50 (replicate 120 d) = [replicate 50 d, replicate 50 d, replicate 20 d]"
  by (simp add: batches_of_Cons batches_of_Nil)

text \<open>
  Claim C1. For a non-empty list of \<open>N\<close> documents and a batch size \<open>B > 0\<close>, on a
  store in any state it can be in, with a provider that keeps its contract on the
  batches (one vector per text, all of one dimension) and a collection that takes
  vectors of that dimension: \<open>addDocuments\<close> returns without error; the provider has
  received one call per batch of the partition of the documents into consecutive
  batches of \<open>B\<close>, in order, and nothing else; there are \<open>\<lceil>N / B\<rceil>\<close> batches, none empty
  and none longer than \<open>B\<close>, and together they are the documents; the table holds the
  rows it held before (none when it did not exist) followed by \<open>N\<close> new rows; the row of
  document \<open>i\<close> has its text and the vector returned at position \<open>i mod B\<close> of the
  response to batch \<open>i div B\<close>; and the reported row count is the count before plus \<open>N\<close>,
  whatever \<open>B\<close> is, which is \<open>N\<close> for a collection that did not exist before. The batch
  size is a natural number here.
\<close>

theorem addDocuments_batches:
  assumes "documents \<noteq> []" and "0 < batchSize" and "reachable e st w"
    and "responses_ok e d (length (embed_calls w)) (batches_of batchSize documents)"
    and "accepts w (tableName st) d"
  shows "\<exists>st' w' new.
      addDocuments e st w documents batchSize = Some (Inr (), st', w')
    \<and> embed_calls w' = embed_calls w @ map (map pageContent) (batches_of batchSize documents)
    \<and> length (batches_of batchSize documents)
        = (length documents + batchSize - 1) div batchSize
    \<and> (\<forall>b \<in> set (batches_of batchSize documents). b \<noteq> [] \<and> length b \<le> batchSize)
    \<and> concat (batches_of batchSize documents) = documents
    \<and> rows_of w' (tableName st) = rows_of w (tableName st) @ new
    \<and> length new = length documents
    \<and> (\<forall>i < length documents.
          vr_text (new ! i) = pageContent (documents ! i)
        \<and> i mod batchSize
            < length (response e (length (embed_calls w) + i div batchSize)
                        (batches_of batchSize documents ! (i div batchSize)))
        \<and> vr_vector (new ! i)
            = Some (response e (length (embed_calls w) + i div batchSize)
                      (batches_of batchSize documents ! (i div batchSize))
                    ! (i mod batchSize)))
    \<and> getCollectionStats st' w'
        = Inr \<lparr> collectionName = tableName st,
                documentCount = int (length (rows_of w (tableName st)) + length documents),
                persistDirectory = store_directory st \<rparr>
    \<and> (tables w (tableName st) = None \<longrightarrow>
         getCollectionStats st' w'
           = Inr \<lparr> collectionName = tableName st,
                   documentCount = int (length documents),
                   persistDirectory = store_directory st \<rparr>)
    \<and> isReady st'"
proof -
  let ?bs = "batches_of batchSize documents"
  let ?new = "batches_records e (length (embed_calls w)) (id_calls w) ?bs"
  let ?st' = "(connect st w)\<lparr>table := Some (tableName st)\<rparr>"
  let ?w' = "w\<lparr>embed_calls := embed_calls w @ map (map pageContent) ?bs,
               id_calls := id_calls w + length documents,
               tables := (tables w)(tableName st \<mapsto>
                 \<lparr> tbl_dimension = d, tbl_rows = rows_of w (tableName st) @ ?new \<rparr>)\<rparr>"
  have inv: "store_inv st w" using assms(3) by (rule reachable_inv)
  have run: "addDocuments e st w documents batchSize = Some (Inr (), ?st', ?w')"
    using addDocuments_success [OF assms(1,2) inv assms(4,5)] by simp
  have calls: "embed_calls ?w' = embed_calls w @ map (map pageContent) ?bs" by simp
  have count: "length ?bs = (length documents + batchSize - 1) div batchSize"
    using assms(2) by (rule length_batches_of)
  have bound: "\<forall>b \<in> set ?bs. b \<noteq> [] \<and> length b \<le> batchSize"
    using batches_of_bounded by blast
  have cat: "concat ?bs = documents" using assms(2) by (rule concat_batches_of)
  have rows: "rows_of ?w' (tableName st) = rows_of w (tableName st) @ ?new"
    by (simp add: rows_of_def)
  have len: "length ?new = length documents"
    by (simp add: length_batches_records cat)
  have conf: "list_all (conforms d) ?new"
    using assms(4) by (rule batches_records_conform)
  have pos: "\<forall>i < length documents.
          vr_text (?new ! i) = pageContent (documents ! i)
        \<and> i mod batchSize
            < length (response e (length (embed_calls w) + i div batchSize)
                        (?bs ! (i div batchSize)))
        \<and> vr_vector (?new ! i)
            = Some (response e (length (embed_calls w) + i div batchSize)
                      (?bs ! (i div batchSize))
                    ! (i mod batchSize))"
  proof (intro allI impI)
    fix i
    assume i: "i < length documents"
    let ?r = "response e (length (embed_calls w) + i div batchSize) (?bs ! (i div batchSize))"
    note nth = batches_records_nth [OF assms(2) i, of e "length (embed_calls w)" "id_calls w"]
    from conf i len have "conforms d (?new ! i)" by (simp add: list_all_length)
    then obtain v where v: "vr_vector (?new ! i) = Some v"
      by (auto simp: conforms_def split: option.splits)
    from nth v have "nth_opt ?r (i mod batchSize) = Some v" by simp
    from nth_opt_Some [OF this] have "i mod batchSize < length ?r" and "v = ?r ! (i mod batchSize)"
      by simp_all
    with v nth show "vr_text (?new ! i) = pageContent (documents ! i)
        \<and> i mod batchSize < length ?r
        \<and> vr_vector (?new ! i) = Some (?r ! (i mod batchSize))"
      by simp
  qed
  have stats: "getCollectionStats ?st' ?w'
        = Inr \<lparr> collectionName = tableName st,
                documentCount = int (length (rows_of w (tableName st)) + length documents),
                persistDirectory = store_directory st \<rparr>"
    by (simp add: getCollectionStats_def countRows_def connect_fields len)
  have fresh: "tables w (tableName st) = None \<longrightarrow>
         getCollectionStats ?st' ?w'
           = Inr \<lparr> collectionName = tableName st,
                   documentCount = int (length documents),
                   persistDirectory = store_directory st \<rparr>"
    unfolding stats by (simp add: rows_of_def)
  have ready: "isReady ?st'" by (simp add: isReady_def)
  show ?thesis
    by (intro exI [of _ ?st'] exI [of _ ?w'] exI [of _ ?new] conjI
          run calls count bound cat rows len pos stats fresh ready)
qed

text \<open>
  The scenario of the specification: 120 chunks added with batch size 50 to a new store
  over an empty database make three provider calls, of 50, 50 and 20 texts, and the
  row count is 120 afterwards.
\<close>

theorem addDocuments_batches_witness:
  "replicate 120 (chunk ''note'') \<noteq> [] \<and> (0::nat) < 50
   \<and> reachable demo_env demo_store empty_world
   \<and> responses_ok demo_env 1 (length (embed_calls empty_world))
        (batches_of 50 (replicate 120 (chunk ''note'')))
   \<and> accepts empty_world (tableName demo_store) 1
   \<and> (\<exists>st' w'.
        addDocuments demo_env demo_store empty_world (replicate 120 (chunk ''note'')) 50
          = Some (Inr (), st', w')
      \<and> map length (embed_calls w') = [50, 50, 20]
      \<and> getCollectionStats st' w'
          = Inr \<lparr> collectionName = ''onenote_collection'', documentCount = 120,
                  persistDirectory = ''./data/chroma_db'' \<rparr>)"
proof -
  have h1: "replicate 120 (chunk ''note'') \<noteq> []" by simp
  have h2: "(0::nat) < 50" by simp
  have h3: "reachable demo_env demo_store empty_world"
    unfolding demo_store_def by (rule reachable.constructed)
  have h4: "responses_ok demo_env 1 (length (embed_calls empty_world))
              (batches_of 50 (replicate 120 (chunk ''note'')))"
    by (simp add: batches_120 demo_env_def list_all_iff)
  have h5: "accepts empty_world (tableName demo_store) 1"
    by (simp add: accepts_def empty_world_def)
  from addDocuments_batches [OF h1 h2 h3 h4 h5] obtain st' w' where
    run: "addDocuments demo_env demo_store empty_world (replicate 120 (chunk ''note'')) 50
            = Some (Inr (), st', w')"
    and calls: "embed_calls w' = embed_calls empty_world
                  @ map (map pageContent) (batches_of 50 (replicate 120 (chunk ''note'')))"
    and stats: "getCollectionStats st' w'
        = Inr \<lparr> collectionName = tableName demo_store,
                documentCount = int (length (rows_of empty_world (tableName demo_store))
                                  + length (replicate 120 (chunk ''note''))),
                persistDirectory = store_directory demo_store \<rparr>"
    by blast
  have c: "map length (embed_calls w') = [50, 50, 20]"
    unfolding calls by (simp add: batches_120 empty_world_def)
  have s: "getCollectionStats st' w'
          = Inr \<lparr> collectionName = ''onenote_collection'', documentCount = 120,
                  persistDirectory = ''./data/chroma_db'' \<rparr>"
    unfolding stats by (simp add: demo_store_fields rows_of_def empty_world_def)
  from run c s have
    "\<exists>st' w'.
        addDocuments demo_env demo_store empty_world (replicate 120 (chunk ''note'')) 50
          = Some (Inr (), st', w')
      \<and> map length (embed_calls w') = [50, 50, 20]
      \<and> getCollectionStats st' w'
          = Inr \<lparr> collectionName = ''onenote_collection'', documentCount = 120,
                  persistDirectory = ''./data/chroma_db'' \<rparr>"
    by (intro exI [of _ st'] exI [of _ w'] conjI)
  with h1 h2 h3 h4 h5 show ?thesis by (intro conjI)
qed

text \<open>
  A provider that changes the dimension of its vectors from one batch to the next is
  outside that statement: the write is rejected and nothing is written.
\<close>

lemma mixed_dimensions_rejected:
  "addDocuments mixed_env demo_store empty_world two_chunks 1
     = Some (Inl SchemaError, demo_store\<lparr>db := True\<rparr>,
             empty_world\<lparr>embed_calls := [[''a''], [''b'']], id_calls := 2\<rparr>)"
proof -
  have ne: "two_chunks \<noteq> []" by (simp add: two_chunks_def)
  have c: "connect demo_store empty_world = demo_store\<lparr>db := True\<rparr>"
    by (simp add: connect_def demo_store_fields initialize_def empty_world_def)
  have loop: "embed_loop mixed_env two_chunks 1 0 [] empty_world
      = Some (Inr (batch_records mixed_env 0 [chunk ''a''] [[1]]
                   @ batch_records mixed_env 1 [chunk ''b''] [[1, 0]]),
              empty_world\<lparr>embed_calls := [[''a''], [''b'']], id_calls := 2\<rparr>)"
    by (simp add: embed_loop_run_batches batches_two mixed_env_def demo_env_def
          empty_world_def chunk_def)
  show ?thesis
    unfolding addDocuments_unfold [OF ne] loop
    by (simp add: c demo_store_fields createTable_def infer_dimension_def batch_records_def
          nth_opt_def conforms_def)
qed

section \<open>Searching\<close>

lemma map_rows_length: "map_rows f xs = Inr ys \<Longrightarrow> length ys = length xs"
  by (induction xs arbitrary: ys) (auto split: sum.splits)

text \<open>
  Claim C3. On a store that holds no table handle, because no table has been opened or
  created, \<open>search\<close> and \<open>searchWithScores\<close> fail with the not-initialized error for
  every query and every \<open>k\<close>: they return no result list and no other error.
\<close>

theorem search_requires_collection:
  "\<not> isReady st \<Longrightarrow>
     search e st w query k = Inl NotInitialized
     \<and> searchWithScores e st w query k = Inl NotInitialized"
  by (simp add: isReady_def search_def searchWithScores_def)

theorem search_requires_collection_witness:
  "\<not> isReady demo_store
   \<and> search demo_env demo_store three_rows ''notes'' (Some 3) = Inl NotInitialized
   \<and> searchWithScores demo_env demo_store three_rows ''notes'' (Some 3) = Inl NotInitialized"
proof -
  have h: "\<not> isReady demo_store"
    by (simp add: isReady_def demo_store_fields)
  show ?thesis
    using h search_requires_collection [OF h, of demo_env three_rows "''notes''" "Some 3"]
    by simp
qed

text \<open>
  Claim C10. A \<open>k\<close> of 0 is treated as an omitted \<open>k\<close>: both searches give the result
  they give without \<open>k\<close>. The width they use is then \<open>retrievalK\<close>: on a store that holds
  its table, with a query vector of the table's dimension, the result of either search
  is built from the first \<open>retrievalK\<close> rows of the ranking of the table's rows, so that
  a result list has \<open>retrievalK\<close> entries, or as many as the ranking has when these are
  fewer, and is not empty when \<open>retrievalK\<close> is positive and the ranking is not empty.
\<close>

theorem falsy_k_uses_default:
  "search e st w query (Some 0) = search e st w query None
   \<and> searchWithScores e st w query (Some 0) = searchWithScores e st w query None
   \<and> (table st = Some t \<and> tables w t = Some tb \<and> embedQuery e query = Inr qv
        \<and> length qv = tbl_dimension tb \<longrightarrow>
        search e st w query (Some 0)
          = map_rows (row_document e) (take (retrievalK e) (vectorSearch e qv (tbl_rows tb)))
      \<and> searchWithScores e st w query (Some 0)
          = map_rows (row_scored e) (take (retrievalK e) (vectorSearch e qv (tbl_rows tb)))
      \<and> (\<forall>docs. search e st w query (Some 0) = Inr docs \<longrightarrow>
            length docs = min (retrievalK e) (length (vectorSearch e qv (tbl_rows tb)))
          \<and> (0 < retrievalK e \<and> vectorSearch e qv (tbl_rows tb) \<noteq> [] \<longrightarrow> docs \<noteq> []))
      \<and> (\<forall>scored. searchWithScores e st w query (Some 0) = Inr scored \<longrightarrow>
            length scored = min (retrievalK e) (length (vectorSearch e qv (tbl_rows tb)))
          \<and> (0 < retrievalK e \<and> vectorSearch e qv (tbl_rows tb) \<noteq> [] \<longrightarrow> scored \<noteq> [])))"
proof -
  have same: "search e st w query (Some 0) = search e st w query None"
    by (simp add: search_def or_number_def Let_def split: option.splits)
  have same': "searchWithScores e st w query (Some 0) = searchWithScores e st w query None"
    by (simp add: searchWithScores_def or_number_def Let_def split: option.splits)
  have held: "table st = Some t \<and> tables w t = Some tb \<and> embedQuery e query = Inr qv
        \<and> length qv = tbl_dimension tb \<longrightarrow>
        search e st w query (Some 0)
          = map_rows (row_document e) (take (retrievalK e) (vectorSearch e qv (tbl_rows tb)))
      \<and> searchWithScores e st w query (Some 0)
          = map_rows (row_scored e) (take (retrievalK e) (vectorSearch e qv (tbl_rows tb)))
      \<and> (\<forall>docs. search e st w query (Some 0) = Inr docs \<longrightarrow>
            length docs = min (retrievalK e) (length (vectorSearch e qv (tbl_rows tb)))
          \<and> (0 < retrievalK e \<and> vectorSearch e qv (tbl_rows tb) \<noteq> [] \<longrightarrow> docs \<noteq> []))
      \<and> (\<forall>scored. searchWithScores e st w query (Some 0) = Inr scored \<longrightarrow>
            length scored = min (retrievalK e) (length (vectorSearch e qv (tbl_rows tb)))
          \<and> (0 < retrievalK e \<and> vectorSearch e qv (tbl_rows tb) \<noteq> [] \<longrightarrow> scored \<noteq> []))"
  proof (intro impI)
    assume h: "table st = Some t \<and> tables w t = Some tb \<and> embedQuery e query = Inr qv
        \<and> length qv = tbl_dimension tb"
    let ?top = "take (retrievalK e) (vectorSearch e qv (tbl_rows tb))"
    have a: "search e st w query (Some 0) = map_rows (row_document e) ?top"
      using h by (simp add: search_def or_number_def vector_query_def)
    have b: "searchWithScores e st w query (Some 0) = map_rows (row_scored e) ?top"
      using h by (simp add: searchWithScores_def or_number_def vector_query_def)
    have n: "length ?top = min (retrievalK e) (length (vectorSearch e qv (tbl_rows tb)))"
      by (simp add: min.commute)
    have ne: "0 < retrievalK e \<and> vectorSearch e qv (tbl_rows tb) \<noteq> [] \<longrightarrow> ?top \<noteq> []"
      by (cases "vectorSearch e qv (tbl_rows tb)") auto
    have c: "\<forall>docs. search e st w query (Some 0) = Inr docs \<longrightarrow>
            length docs = min (retrievalK e) (length (vectorSearch e qv (tbl_rows tb)))
          \<and> (0 < retrievalK e \<and> vectorSearch e qv (tbl_rows tb) \<noteq> [] \<longrightarrow> docs \<noteq> [])"
    proof (intro allI impI)
      fix docs
      assume "search e st w query (Some 0) = Inr docs"
      with a have "map_rows (row_document e) ?top = Inr docs" by simp
      from map_rows_length [OF this] have l: "length docs = length ?top" .
      with n ne show "length docs = min (retrievalK e) (length (vectorSearch e qv (tbl_rows tb)))
          \<and> (0 < retrievalK e \<and> vectorSearch e qv (tbl_rows tb) \<noteq> [] \<longrightarrow> docs \<noteq> [])"
        by (metis length_0_conv)
    qed
    have d: "\<forall>scored. searchWithScores e st w query (Some 0) = Inr scored \<longrightarrow>
            length scored = min (retrievalK e) (length (vectorSearch e qv (tbl_rows tb)))
          \<and> (0 < retrievalK e \<and> vectorSearch e qv (tbl_rows tb) \<noteq> [] \<longrightarrow> scored \<noteq> [])"
    proof (intro allI impI)
      fix scored
      assume "searchWithScores e st w query (Some 0) = Inr scored"
      with b have "map_rows (row_scored e) ?top = Inr scored" by simp
      from map_rows_length [OF this] have l: "length scored = length ?top" .
      with n ne show "length scored
            = min (retrievalK e) (length (vectorSearch e qv (tbl_rows tb)))
          \<and> (0 < retrievalK e \<and> vectorSearch e qv (tbl_rows tb) \<noteq> [] \<longrightarrow> scored \<noteq> [])"
        by (metis length_0_conv)
    qed
    from a b c d show "search e st w query (Some 0)
          = map_rows (row_document e) (take (retrievalK e) (vectorSearch e qv (tbl_rows tb)))
      \<and> searchWithScores e st w query (Some 0)
          = map_rows (row_scored e) (take (retrievalK e) (vectorSearch e qv (tbl_rows tb)))
      \<and> (\<forall>docs. search e st w query (Some 0) = Inr docs \<longrightarrow>
            length docs = min (retrievalK e) (length (vectorSearch e qv (tbl_rows tb)))
          \<and> (0 < retrievalK e \<and> vectorSearch e qv (tbl_rows tb) \<noteq> [] \<longrightarrow> docs \<noteq> []))
      \<and> (\<forall>scored. searchWithScores e st w query (Some 0) = Inr scored \<longrightarrow>
            length scored = min (retrievalK e) (length (vectorSearch e qv (tbl_rows tb)))
          \<and> (0 < retrievalK e \<and> vectorSearch e qv (tbl_rows tb) \<noteq> [] \<longrightarrow> scored \<noteq> []))"
      by (intro conjI)
  qed
  from same same' held show ?thesis by (intro conjI)
qed

text \<open>
  With three rows stored and a default width of 2, \<open>k = 0\<close> returns the first two rows
  of the ranking from either search.
\<close>

theorem falsy_k_uses_default_witness:
  "table open_store = Some ''onenote_collection''
   \<and> tables three_rows ''onenote_collection''
       = Some \<lparr> tbl_dimension = 1,
                tbl_rows = [demo_row ''a'', demo_row ''b'', demo_row ''c''] \<rparr>
   \<and> embedQuery demo_env ''q'' = Inr [1]
   \<and> length [1::real] = 1
   \<and> search demo_env open_store three_rows ''q'' (Some 0)
       = Inr [\<lparr> pageContent = ''a'', metadata = Some [] \<rparr>,
              \<lparr> pageContent = ''b'', metadata = Some [] \<rparr>]
   \<and> search demo_env open_store three_rows ''q'' None
       = Inr [\<lparr> pageContent = ''a'', metadata = Some [] \<rparr>,
              \<lparr> pageContent = ''b'', metadata = Some [] \<rparr>]
   \<and> searchWithScores demo_env open_store three_rows ''q'' (Some 0)
       = Inr [(\<lparr> pageContent = ''a'', metadata = Some [] \<rparr>, 1),
              (\<lparr> pageContent = ''b'', metadata = Some [] \<rparr>, 1)]
   \<and> searchWithScores demo_env open_store three_rows ''q'' None
       = Inr [(\<lparr> pageContent = ''a'', metadata = Some [] \<rparr>, 1),
              (\<lparr> pageContent = ''b'', metadata = Some [] \<rparr>, 1)]"
proof -
  let ?tb = "\<lparr> tbl_dimension = 1,
               tbl_rows = [demo_row ''a'', demo_row ''b'', demo_row ''c''] \<rparr>"
  have h1: "table open_store = Some ''onenote_collection''"
    by (simp add: open_store_def)
  have h2: "tables three_rows ''onenote_collection'' = Some ?tb"
    by (simp add: three_rows_def empty_world_def)
  have h3: "embedQuery demo_env ''q'' = Inr [1]"
    by (simp add: demo_env_def)
  have h4: "length [1::real] = tbl_dimension ?tb" by simp
  have top: "take (retrievalK demo_env) (vectorSearch demo_env [1] (tbl_rows ?tb))
      = [\<lparr> row_text = ''a'', row_metadata = MetaObject [], row_distance = Some 1 \<rparr>,
         \<lparr> row_text = ''b'', row_metadata = MetaObject [], row_distance = Some 1 \<rparr>]"
    by (simp add: demo_env_def demo_row_def)
  note inst = falsy_k_uses_default
    [of demo_env open_store three_rows "''q''" "''onenote_collection''" ?tb "[1]"]
  from inst have s0: "search demo_env open_store three_rows ''q'' (Some 0)
                        = search demo_env open_store three_rows ''q'' None"
    and w0: "searchWithScores demo_env open_store three_rows ''q'' (Some 0)
               = searchWithScores demo_env open_store three_rows ''q'' None"
    by simp_all
  from inst h1 h2 h3 h4 have
    s: "search demo_env open_store three_rows ''q'' (Some 0)
          = map_rows (row_document demo_env)
              (take (retrievalK demo_env) (vectorSearch demo_env [1] (tbl_rows ?tb)))"
    and ws: "searchWithScores demo_env open_store three_rows ''q'' (Some 0)
          = map_rows (row_scored demo_env)
              (take (retrievalK demo_env) (vectorSearch demo_env [1] (tbl_rows ?tb)))"
    by blast+
  have s': "search demo_env open_store three_rows ''q'' (Some 0)
       = Inr [\<lparr> pageContent = ''a'', metadata = Some [] \<rparr>,
              \<lparr> pageContent = ''b'', metadata = Some [] \<rparr>]"
    unfolding s top by (simp add: row_document_def)
  have ws': "searchWithScores demo_env open_store three_rows ''q'' (Some 0)
       = Inr [(\<lparr> pageContent = ''a'', metadata = Some [] \<rparr>, 1),
              (\<lparr> pageContent = ''b'', metadata = Some [] \<rparr>, 1)]"
    unfolding ws top by (simp add: row_scored_def row_document_def)
  from h1 h2 h3 s' ws' s0 w0 show ?thesis by simp
qed

section \<open>Adding nothing, initializing twice\<close>

text \<open>
  Claim C5. \<open>addDocuments\<close> with an empty list returns without error and leaves the
  store and everything outside it as they were: the provider has received no call, no
  table has been created, and \<open>isReady\<close> answers as before.
\<close>

theorem addDocuments_empty:
  "addDocuments e st w [] batchSize = Some (Inr (), st, w)"
  by (simp add: addDocuments_def)

text \<open>
  Claim C9. A second \<open>initialize\<close> right after a first one returns what the first
  returned and leaves the store as the first left it, so \<open>getCollectionStats\<close> gives the
  same answer after two calls as after one.
\<close>

theorem initialize_idempotent:
  "initialize (snd (initialize st w)) w = initialize st w
   \<and> fst (initialize st w) = Inr ()
   \<and> getCollectionStats (snd (initialize (snd (initialize st w)) w)) w
       = getCollectionStats (snd (initialize st w)) w"
  by (auto simp: initialize_def countRows_def Let_def split: option.splits)

section \<open>A provider that rejects a batch\<close>

lemma addDocuments_failure:
  assumes ne: "documents \<noteq> []" and B: "0 < B"
    and err: "first_error e (length (embed_calls w)) (batches_of B documents) = Some err"
  shows "\<exists>w'. addDocuments e st w documents B = Some (Inl err, connect st w, w')
              \<and> tables w' = tables w"
proof -
  obtain r w1 where rb: "run_batches e (batches_of B documents) [] w = (r, w1)"
    by (cases "run_batches e (batches_of B documents) [] w")
  from run_batches_error [OF err, of "[]"] rb have r: "r = Inl err" by simp
  have loop: "embed_loop e documents B 0 [] w = Some (Inl err, w1)"
    using embed_loop_run_batches [OF B, of e documents 0 "[]" w] rb r by simp
  from embed_loop_tables [OF loop] have "tables w1 = tables w" by simp
  moreover have "addDocuments e st w documents B = Some (Inl err, connect st w, w1)"
    unfolding addDocuments_unfold [OF ne] loop by simp
  ultimately show ?thesis by blast
qed

lemma first_error_two:
  "first_error failing_env (length (embed_calls empty_world)) (batches_of 1 two_chunks)
     = Some (EmbeddingProviderError ''rate limit'')"
  by (simp add: batches_two failing_env_def demo_env_def empty_world_def)

text \<open>
  Claim C2, as the specification states it, fails. Two chunks are added in batches of
  one to a new store over an empty database; the provider answers the first batch and
  rejects the second. The call fails with the provider's error, and afterwards there is
  no table: the first batch, which was embedded, has not been written, and the store
  is not ready and reports no rows.
\<close>

theorem later_batch_failure_counterexample:
  "addDocuments failing_env demo_store empty_world two_chunks 1
     = Some (Inl (EmbeddingProviderError ''rate limit''),
             demo_store\<lparr>db := True\<rparr>,
             empty_world\<lparr>embed_calls := [[''a''], [''b'']], id_calls := 1\<rparr>)
   \<and> tables (empty_world\<lparr>embed_calls := [[''a''], [''b'']], id_calls := 1\<rparr>) = Map.empty
   \<and> \<not> isReady (demo_store\<lparr>db := True\<rparr>)
   \<and> getCollectionStats (demo_store\<lparr>db := True\<rparr>)
         (empty_world\<lparr>embed_calls := [[''a''], [''b'']], id_calls := 1\<rparr>)
       = Inr \<lparr> collectionName = ''onenote_collection'', documentCount = 0,
               persistDirectory = ''./data/chroma_db'' \<rparr>"
proof -
  have ne: "two_chunks \<noteq> []" by (simp add: two_chunks_def)
  have c: "connect demo_store empty_world = demo_store\<lparr>db := True\<rparr>"
    by (simp add: connect_def demo_store_fields initialize_def empty_world_def)
  have loop: "embed_loop failing_env two_chunks 1 0 [] empty_world
      = Some (Inl (EmbeddingProviderError ''rate limit''),
              empty_world\<lparr>embed_calls := [[''a''], [''b'']], id_calls := 1\<rparr>)"
    by (simp add: embed_loop_run_batches batches_two failing_env_def demo_env_def
          empty_world_def chunk_def)
  have run: "addDocuments failing_env demo_store empty_world two_chunks 1
     = Some (Inl (EmbeddingProviderError ''rate limit''),
             demo_store\<lparr>db := True\<rparr>,
             empty_world\<lparr>embed_calls := [[''a''], [''b'']], id_calls := 1\<rparr>)"
    unfolding addDocuments_unfold [OF ne] loop by (simp add: c)
  show ?thesis
    unfolding run
    by (simp add: empty_world_def isReady_def demo_store_fields getCollectionStats_def)
qed

text \<open>
  Claim C2, amended. \<open>addDocuments\<close> writes only after every batch has been embedded.
  When the provider rejects a batch, the first or a later one, the call fails with the
  provider's error and the tables are what they were before the call: no batch embedded
  earlier in the call is written, and no part of the rejected batch. A store that had
  a connection is left as it was; one that had none is left as \<open>initialize\<close> leaves it,
  connected and holding the table when the table exists.
\<close>

theorem embedding_failure_commits_nothing:
  assumes "documents \<noteq> []" and "0 < batchSize"
    and "first_error e (length (embed_calls w)) (batches_of batchSize documents) = Some err"
  shows "\<exists>st' w'.
      addDocuments e st w documents batchSize = Some (Inl err, st', w')
    \<and> tables w' = tables w
    \<and> st' = (if db st then st else snd (initialize st w))"
  using addDocuments_failure [OF assms] by (auto simp: connect_def)

theorem embedding_failure_commits_nothing_witness:
  "two_chunks \<noteq> [] \<and> (0::nat) < 1
   \<and> first_error failing_env (length (embed_calls empty_world)) (batches_of 1 two_chunks)
       = Some (EmbeddingProviderError ''rate limit'')
   \<and> (\<exists>st' w'.
        addDocuments failing_env demo_store empty_world two_chunks 1
          = Some (Inl (EmbeddingProviderError ''rate limit''), st', w')
      \<and> tables w' = Map.empty
      \<and> st' = demo_store\<lparr>db := True\<rparr>)"
proof -
  have h1: "two_chunks \<noteq> []" by (simp add: two_chunks_def)
  have h2: "(0::nat) < 1" by simp
  from embedding_failure_commits_nothing [OF h1 h2 first_error_two, of demo_store]
  obtain st' w' where
    run: "addDocuments failing_env demo_store empty_world two_chunks 1
            = Some (Inl (EmbeddingProviderError ''rate limit''), st', w')"
    and t: "tables w' = tables empty_world"
    and s: "st' = (if db demo_store then demo_store else snd (initialize demo_store empty_world))"
    by blast
  from t have t': "tables w' = Map.empty" by (simp add: empty_world_def)
  from s have s': "st' = demo_store\<lparr>db := True\<rparr>"
    by (simp add: demo_store_fields initialize_def empty_world_def)
  from run t' s' have
    "\<exists>st' w'.
        addDocuments failing_env demo_store empty_world two_chunks 1
          = Some (Inl (EmbeddingProviderError ''rate limit''), st', w')
      \<and> tables w' = Map.empty
      \<and> st' = demo_store\<lparr>db := True\<rparr>"
    by (intro exI [of _ st'] exI [of _ w'] conjI)
  with h1 h2 first_error_two show ?thesis by (intro conjI)
qed

section \<open>Deleting the collection\<close>

lemma initialize_demo_empty:
  "snd (initialize demo_store empty_world) = demo_store\<lparr>db := True\<rparr>"
  by (simp add: initialize_def demo_store_fields empty_world_def)

lemma initialize_demo_three:
  "snd (initialize demo_store three_rows) = open_store"
  by (simp add: initialize_def demo_store_fields three_rows_def empty_world_def open_store_def
        countRows_def)

text \<open>
  Claim C4 on the LanceDB store. On a store that has been initialized over a database
  without the table, \<open>deleteCollection\<close> raises the table-not-found error of
  \<open>dropTable\<close>; and on a store whose table exists, a first \<open>deleteCollection\<close> returns
  and a second one right after it raises that error.
\<close>

theorem deleteCollection_absent_raises:
  "deleteCollection (snd (initialize demo_store empty_world)) empty_world
     = (Inl (TableNotFound ''onenote_collection''),
        snd (initialize demo_store empty_world), empty_world)
   \<and> fst (deleteCollection (snd (initialize demo_store three_rows)) three_rows) = Inr ()
   \<and> fst (deleteCollection
            (fst (snd (deleteCollection (snd (initialize demo_store three_rows)) three_rows)))
            (snd (snd (deleteCollection (snd (initialize demo_store three_rows)) three_rows))))
       = Inl (TableNotFound ''onenote_collection'')"
proof -
  have a: "deleteCollection (demo_store\<lparr>db := True\<rparr>) empty_world
     = (Inl (TableNotFound ''onenote_collection''), demo_store\<lparr>db := True\<rparr>, empty_world)"
    by (simp add: deleteCollection_def dropTable_def demo_store_fields empty_world_def)
  have b: "deleteCollection open_store three_rows
     = (Inr (), open_store\<lparr>table := None\<rparr>, three_rows\<lparr>tables := Map.empty\<rparr>)"
    by (simp add: deleteCollection_def dropTable_def open_store_def demo_store_fields
          three_rows_def empty_world_def)
  have c: "fst (deleteCollection (open_store\<lparr>table := None\<rparr>)
                 (three_rows\<lparr>tables := Map.empty\<rparr>))
     = Inl (TableNotFound ''onenote_collection'')"
    by (simp add: deleteCollection_def dropTable_def open_store_def demo_store_fields
          three_rows_def empty_world_def)
  show ?thesis
    unfolding initialize_demo_empty initialize_demo_three a b by (simp add: c)
qed

text \<open>
  What does hold. After \<open>deleteCollection\<close> on the LanceDB store, whether it returned
  or raised, the store is not ready, reports no rows, and \<open>search\<close> fails with the
  not-initialized error. On the HNSWLib store, which tests for the directory first, a
  second \<open>deleteCollection\<close> changes nothing, and the same holds afterwards.
\<close>

lemma deleted_not_initialized:
  assumes "store_inv st w" and "deleteCollection st w = (r, st', w')"
  shows "\<not> isReady st'"
    and "getCollectionStats st' w' =
           Inr \<lparr> collectionName = tableName st, documentCount = 0,
                 persistDirectory = store_directory st \<rparr>"
    and "search e st' w' query k = Inl NotInitialized"
  using assms
  by (auto simp: store_inv_def deleteCollection_def dropTable_def isReady_def
        getCollectionStats_def search_def split: if_splits sum.splits)

lemma hnsw_deleteCollection_idempotent:
  "hnsw_deleteCollection (fst (hnsw_deleteCollection st disk))
       (snd (hnsw_deleteCollection st disk))
     = hnsw_deleteCollection st disk"
  by (auto simp: hnsw_deleteCollection_def getStorePath_def)

lemma hnsw_deleted_not_initialized:
  "documentCount (hnsw_getCollectionStats (fst (hnsw_deleteCollection st disk))) = 0"
  "hnsw_search e sim (fst (hnsw_deleteCollection st disk)) query k = Inl NotInitialized"
  by (simp_all add: hnsw_deleteCollection_def hnsw_getCollectionStats_def hnsw_search_def)

section \<open>Describing the collection\<close>

text \<open>
  Claim C6, as the specification states it, fails on the HNSWLib store. The store is
  initialized over a saved index of two documents; it holds the index, and the count it
  reports is -1, not 2.
\<close>

theorem hnsw_count_unknown_counterexample:
  "vectorstore (hnsw_initialize hnsw_fresh saved_disk) = Some [chunk ''a'', chunk ''b'']
   \<and> hnsw_getCollectionStats (hnsw_initialize hnsw_fresh saved_disk)
       = \<lparr> collectionName = ''onenote_collection'', documentCount = - 1,
           persistDirectory = ''./data/chroma_db'' \<rparr>"
  by (simp add: hnsw_initialize_def storeExists_def getStorePath_def path_join_def
        hnsw_fresh_def saved_disk_def hnsw_getCollectionStats_def)

text \<open>
  Claim C6, amended. \<open>getCollectionStats\<close> succeeds in every state and returns the
  collection name and the storage directory. On the LanceDB store, in every state the
  store can be in, the count is 0 when no table handle is held and the number of rows of
  the table otherwise. On the HNSWLib store the count is 0 when no index is held and
  -1, for unknown, otherwise.
\<close>

theorem describe_total:
  "reachable e st w \<Longrightarrow>
     getCollectionStats st w =
       Inr \<lparr> collectionName = tableName st,
             documentCount =
               (if isReady st then int (length (rows_of w (tableName st))) else 0),
             persistDirectory = store_directory st \<rparr>
   \<and> hnsw_getCollectionStats hst =
       \<lparr> collectionName = hnsw_collectionName hst,
         documentCount = (if hnsw_isReady hst then - 1 else 0),
         persistDirectory = hnsw_directory hst \<rparr>"
  by (simp add: stats_inv [OF reachable_inv] hnsw_getCollectionStats_def hnsw_isReady_def)

lemma rows_of_three:
  "rows_of three_rows ''onenote_collection'' = [demo_row ''a'', demo_row ''b'', demo_row ''c'']"
  by (simp add: rows_of_def three_rows_def empty_world_def)

theorem describe_total_witness:
  "reachable demo_env (snd (initialize demo_store three_rows)) three_rows
   \<and> getCollectionStats (snd (initialize demo_store three_rows)) three_rows
       = Inr \<lparr> collectionName = ''onenote_collection'', documentCount = 3,
               persistDirectory = ''./data/chroma_db'' \<rparr>
   \<and> getCollectionStats demo_store three_rows
       = Inr \<lparr> collectionName = ''onenote_collection'', documentCount = 0,
               persistDirectory = ''./data/chroma_db'' \<rparr>
   \<and> hnsw_getCollectionStats hnsw_fresh
       = \<lparr> collectionName = ''onenote_collection'', documentCount = 0,
           persistDirectory = ''./data/chroma_db'' \<rparr>"
proof -
  have r0: "reachable demo_env demo_store three_rows"
    unfolding demo_store_def by (rule reachable.constructed)
  then have r1: "reachable demo_env (snd (initialize demo_store three_rows)) three_rows"
    by (rule reachable.initialized)
  from describe_total [OF r1, of hnsw_fresh] have
    a: "getCollectionStats (snd (initialize demo_store three_rows)) three_rows
       = Inr \<lparr> collectionName = ''onenote_collection'', documentCount = 3,
               persistDirectory = ''./data/chroma_db'' \<rparr>"
    and c: "hnsw_getCollectionStats hnsw_fresh
       = \<lparr> collectionName = ''onenote_collection'', documentCount = 0,
           persistDirectory = ''./data/chroma_db'' \<rparr>"
    unfolding initialize_demo_three
    by (simp_all add: open_store_def demo_store_fields isReady_def rows_of_three
          hnsw_fresh_def hnsw_isReady_def)
  from describe_total [OF r0, of hnsw_fresh] have
    b: "getCollectionStats demo_store three_rows
       = Inr \<lparr> collectionName = ''onenote_collection'', documentCount = 0,
               persistDirectory = ''./data/chroma_db'' \<rparr>"
    by (simp add: demo_store_fields isReady_def)
  from r1 a b c show ?thesis by (intro conjI)
qed

section \<open>A missing API key\<close>

text \<open>
  Claim C7, as the specification states it, fails. With no API key configured, the
  construction of the chain itself fails with the missing-key error: there is no chain
  on which \<open>ask\<close> could be invoked.
\<close>

theorem missing_key_fails_in_constructor_counterexample:
  "QAChain_new no_key_config ''{context} {question}'' None None None None = Inl MissingApiKey"
  by (simp add: QAChain_new_def createLLM_def no_key_config_def)

text \<open>
  Claim C7, amended. When the API key of the default provider is missing from the
  configuration, constructing the chain for that provider fails with the missing-key
  error, whatever the other arguments are: the failure is raised by the constructor,
  before any \<open>ask\<close>.
\<close>

theorem missing_key_fails_in_constructor:
  "apiKey cfg = [] \<Longrightarrow>
     QAChain_new cfg default_template None name temp promptTemplate = Inl MissingApiKey
   \<and> QAChain_new cfg default_template (Some ''openai'') name temp promptTemplate
       = Inl MissingApiKey"
  by (simp add: QAChain_new_def createLLM_def)

theorem missing_key_fails_in_constructor_witness:
  "apiKey no_key_config = []
   \<and> QAChain_new no_key_config ''{context} {question}'' (Some ''openai'') (Some ''gpt-4'')
        (Some 0) None = Inl MissingApiKey"
proof -
  have h: "apiKey no_key_config = []" by (simp add: no_key_config_def)
  from missing_key_fails_in_constructor [OF h] h show ?thesis by blast
qed

text \<open>
  \<open>ask\<close> on a chain that was constructed builds no model: it fails only when the
  store holds no index or when the invocation of the chain is rejected.
\<close>

lemma ask_errors:
  "fst (ask e invoke qa store q returnSources) = Inl err \<Longrightarrow>
     err = NotInitialized \<or> (\<exists>c. invoke c q = Inl err)"
  by (auto simp: ask_def ensureInitialized_def qa_initialize_def hnsw_asRetriever_def
      split: option.splits sum.splits prod.splits)

section \<open>A page that cannot be loaded\<close>





















end
